theory Spec2Isabelle
  imports Complex_Main "HOL-Library.Char_ord" "HOL-Library.List_Lexorder"
begin

section \<open>Conventions of the embedding\<close>

text \<open>
  The program is a pandas pipeline: \<open>data_processor.py\<close> appends derived columns to a
  frame of trades, \<open>counterparty_analyzer.py\<close> groups the frame and aggregates it.

  \<^item> A frame is the list of its rows, in row order; a column operation of pandas is the
    same operation on every row.
  \<^item> A Python float is a \<^typ>\<open>real\<close>. A float that may be NaN is a \<^typ>\<open>real option\<close>,
    with \<open>None\<close> for NaN: arithmetic on NaN gives NaN, every comparison with NaN is false,
    and the reductions \<open>sum\<close>, \<open>mean\<close> and \<open>max\<close> of pandas skip NaN. Raw numeric columns
    hold no NaN (the cleaning stage fills them with 0). Infinities are not modelled: the
    configured maxima that divide are taken to be non-zero.
  \<^item> A Python \<open>str\<close> is a \<^typ>\<open>string\<close>; \<open>\<le>\<close> on strings is the lexicographic order on
    character codes, which is what Python and pandas compare strings by.
  \<^item> The configuration is the nested dictionary of \<open>risk_thresholds.yaml\<close>, taken with
    every key that the code reads present; it is a record with one field per key.
\<close>

datatype error = ValueError

section \<open>Configuration\<close>

record config =
  rating_weights :: "(string \<times> real) list"
    \<comment> \<open>\<open>config['credit_risk']['rating_weights']\<close>\<close>
  high_risk_rating_threshold :: string
  single_counterparty_limit_pct :: real
  max_haircut_pct :: real
  max_specialness_bp :: real
  max_encumbrance_days :: real
  max_mild_margin_call_musd :: real
  max_severe_margin_call_musd :: real
  max_term_days :: real
  mild_stress :: real
  severe_stress :: real
  weight_credit_risk :: real
  weight_market_risk :: real
  weight_liquidity_risk :: real
  weight_operational_risk :: real
  weight_term_risk :: real
  low_risk :: real
  medium_risk :: real
  high_risk :: real
  critical_risk :: real

section \<open>Trades and derived columns\<close>

text \<open>The columns of the input frame that the code reads.\<close>

record trade =
  counterparty_type :: string
  counterparty_rating :: string
  currency :: string
  jurisdiction :: string
  term_type :: string
  collateral_hqla_level :: string
  notional_musd :: real
  haircut_pct :: real
  specialness_bp :: real
  collateral_liquidity_score :: real
  collateral_price_vol_20d_pct :: real
  collateral_duration_years :: real
  encumbrance_days :: real
  margin_call_mild_musd :: real
  margin_call_severe_musd :: real
  wrong_way_risk_flag :: int
  cross_ccy_flag :: int
  ccp_cleared_flag :: int
  days_to_maturity :: real

text \<open>The columns each derivation step appends, one record per step.\<close>

record credit_fields =
  rating_risk_weight :: "real option"
  credit_risk_score :: "real option"
  high_risk_rating_flag :: bool
  credit_adjusted_exposure :: "real option"

record market_fields =
  collateral_quality_score :: real
  haircut_risk_score :: real
  specialness_risk_score :: real
  market_risk_score :: real

record liquidity_fields =
  encumbrance_risk_score :: real
  margin_call_risk_score :: real
  liquidity_risk_score :: real

record operational_fields =
  wrong_way_risk_score :: int
  cross_currency_risk_score :: int
  ccp_clearing_risk_score :: int
  operational_risk_score :: real

record term_fields =
  maturity_risk_score :: real
  open_repo_risk_score :: int
  term_risk_score :: real

record stress_fields =
  mild_stress_exposure :: real
  severe_stress_exposure :: real
  mild_stress_risk_score :: "real option"
  severe_stress_risk_score :: "real option"

record composite_fields =
  composite_risk_score :: "real option"
  risk_category :: string

text \<open>A row of \<open>processed_data\<close>: the trade and every derived column.\<close>

record row =
  raw :: trade
  credit :: credit_fields
  market :: market_fields
  liquidity :: liquidity_fields
  operational :: operational_fields
  term_risk :: term_fields
  stress :: stress_fields
  composite :: composite_fields

section \<open>Floats that may be NaN\<close>

definition nan_gt :: "real option \<Rightarrow> real \<Rightarrow> bool" where
  \<comment> \<open>\<open>x > y\<close> for a float \<open>x\<close> that may be NaN\<close>
  "nan_gt x y = (case x of None \<Rightarrow> False | Some v \<Rightarrow> v > y)"

definition nan_le :: "real option \<Rightarrow> real \<Rightarrow> bool" where
  \<comment> \<open>\<open>x <= y\<close> for a float \<open>x\<close> that may be NaN\<close>
  "nan_le x y = (case x of None \<Rightarrow> False | Some v \<Rightarrow> v \<le> y)"

definition clip_upper :: "real \<Rightarrow> real \<Rightarrow> real" where
  \<comment> \<open>\<open>Series.clip(upper=u)\<close> on one value\<close>
  "clip_upper u x = min x u"

section \<open>The data processor\<close>

definition derive_credit_risk_fields :: "config \<Rightarrow> trade \<Rightarrow> credit_fields" where
  \<comment> \<open>\<open>Series.map(dict)\<close> turns a value that is not a key of the dict into NaN\<close>
  "derive_credit_risk_fields cfg t =
    (let w = map_of (rating_weights cfg) (counterparty_rating t);
         c = map_option (\<lambda>v. v / 100) w
     in \<lparr> rating_risk_weight = w,
          credit_risk_score = c,
          high_risk_rating_flag = (counterparty_rating t \<ge> high_risk_rating_threshold cfg),
          credit_adjusted_exposure = map_option (\<lambda>v. notional_musd t * (1 + v)) c \<rparr>)"

definition derive_market_risk_fields :: "config \<Rightarrow> trade \<Rightarrow> market_fields" where
  "derive_market_risk_fields cfg t =
    (let q = collateral_liquidity_score t * 0.4
             + (1 - collateral_price_vol_20d_pct t / 100) * 0.3
             + (if collateral_duration_years t \<le> 5 then 1 else 0) * 0.3;
         h = haircut_pct t / max_haircut_pct cfg;
         s = specialness_bp t / max_specialness_bp cfg
     in \<lparr> collateral_quality_score = q,
          haircut_risk_score = h,
          specialness_risk_score = s,
          market_risk_score = (1 - q) * 0.4 + h * 0.3 + s * 0.3 \<rparr>)"

definition derive_liquidity_risk_fields :: "config \<Rightarrow> trade \<Rightarrow> liquidity_fields" where
  "derive_liquidity_risk_fields cfg t =
    (let e = clip_upper 1.0 (encumbrance_days t / max_encumbrance_days cfg);
         m = clip_upper 1.0
               (margin_call_mild_musd t / max_mild_margin_call_musd cfg * 0.5
                + margin_call_severe_musd t / max_severe_margin_call_musd cfg * 0.5)
     in \<lparr> encumbrance_risk_score = e,
          margin_call_risk_score = m,
          liquidity_risk_score = e * 0.6 + m * 0.4 \<rparr>)"

definition derive_operational_risk_fields :: "trade \<Rightarrow> operational_fields" where
  "derive_operational_risk_fields t =
    (let w = wrong_way_risk_flag t;
         x = cross_ccy_flag t;
         c = 1 - ccp_cleared_flag t
     in \<lparr> wrong_way_risk_score = w,
          cross_currency_risk_score = x,
          ccp_clearing_risk_score = c,
          operational_risk_score = real_of_int w * 0.4 + real_of_int x * 0.3 + real_of_int c * 0.3 \<rparr>)"

definition derive_term_risk_fields :: "config \<Rightarrow> trade \<Rightarrow> term_fields" where
  "derive_term_risk_fields cfg t =
    (let m = clip_upper 1.0 (days_to_maturity t / max_term_days cfg);
         p = (if term_type t = ''Open'' then 1 else 0)
     in \<lparr> maturity_risk_score = m,
          open_repo_risk_score = p,
          term_risk_score = m * 0.7 + real_of_int p * 0.3 \<rparr>)"

definition derive_stress_testing_fields :: "config \<Rightarrow> trade \<Rightarrow> credit_fields \<Rightarrow> stress_fields" where
  "derive_stress_testing_fields cfg t cr =
    \<lparr> mild_stress_exposure = notional_musd t * mild_stress cfg,
      severe_stress_exposure = notional_musd t * severe_stress cfg,
      mild_stress_risk_score =
        map_option (\<lambda>c. clip_upper 1.0 (c * mild_stress cfg)) (credit_risk_score cr),
      severe_stress_risk_score =
        map_option (\<lambda>c. clip_upper 1.0 (c * severe_stress cfg)) (credit_risk_score cr) \<rparr>"

definition assign_risk_category :: "config \<Rightarrow> real option \<Rightarrow> string" where
  "assign_risk_category cfg score =
    (if nan_le score (low_risk cfg) then ''Low''
     else if nan_le score (medium_risk cfg) then ''Medium''
     else if nan_le score (high_risk cfg) then ''High''
     else ''Critical'')"

definition calculate_composite_risk_score ::
  "config \<Rightarrow> credit_fields \<Rightarrow> market_fields \<Rightarrow> liquidity_fields \<Rightarrow> operational_fields
     \<Rightarrow> term_fields \<Rightarrow> composite_fields" where
  "calculate_composite_risk_score cfg cr mk lq op tm =
    (let s = map_option (\<lambda>c. c * weight_credit_risk cfg
                              + market_risk_score mk * weight_market_risk cfg
                              + liquidity_risk_score lq * weight_liquidity_risk cfg
                              + operational_risk_score op * weight_operational_risk cfg
                              + term_risk_score tm * weight_term_risk cfg)
                   (credit_risk_score cr)
     in \<lparr> composite_risk_score = s,
          risk_category = assign_risk_category cfg s \<rparr>)"

definition derive_row :: "config \<Rightarrow> trade \<Rightarrow> row" where
  \<comment> \<open>the seven steps of \<open>derive_risk_fields\<close>, in its order, on one row\<close>
  "derive_row cfg t =
    (let cr = derive_credit_risk_fields cfg t;
         mk = derive_market_risk_fields cfg t;
         lq = derive_liquidity_risk_fields cfg t;
         op = derive_operational_risk_fields t;
         tm = derive_term_risk_fields cfg t;
         st = derive_stress_testing_fields cfg t cr;
         cp = calculate_composite_risk_score cfg cr mk lq op tm
     in \<lparr> raw = t, credit = cr, market = mk, liquidity = lq, operational = op,
          term_risk = tm, stress = st, composite = cp \<rparr>)"

record processor =
  proc_config :: config
  data :: "trade list option"
  processed_data :: "row list option"

definition derive_risk_fields :: "processor \<Rightarrow> error + (row list \<times> processor)" where
  \<comment> \<open>returns the processed frame and the processor that now holds it\<close>
  "derive_risk_fields p =
    (case data p of
       None \<Rightarrow> Inl ValueError
     | Some d \<Rightarrow>
         (let pd = map (derive_row (proc_config p)) d
          in Inr (pd, p\<lparr>processed_data := Some pd\<rparr>)))"

section \<open>Reductions and grouping of pandas\<close>

definition dropna :: "real option list \<Rightarrow> real list" where
  "dropna xs = concat (map (\<lambda>x. case x of None \<Rightarrow> [] | Some v \<Rightarrow> [v]) xs)"

definition mean :: "real list \<Rightarrow> real option" where
  \<comment> \<open>the mean of no value is NaN\<close>
  "mean xs = (if xs = [] then None else Some (sum_list xs / real (length xs)))"

definition nan_mean :: "real option list \<Rightarrow> real option" where
  "nan_mean xs = mean (dropna xs)"

definition nan_max :: "real option list \<Rightarrow> real option" where
  "nan_max xs = (case dropna xs of [] \<Rightarrow> None | y # ys \<Rightarrow> Some (fold max ys y))"

definition mode_col :: "string list \<Rightarrow> string list" where
  \<comment> \<open>\<open>Series.mode()\<close>: the most frequent values, sorted\<close>
  "mode_col xs =
    (let vs = sort (remdups xs)
     in filter (\<lambda>v. list_all (\<lambda>w. count_list xs w \<le> count_list xs v) vs) vs)"

definition value_counts :: "string list \<Rightarrow> (string \<rightharpoonup> nat)" where
  \<comment> \<open>\<open>Series.value_counts().to_dict()\<close>\<close>
  "value_counts xs = (\<lambda>k. if k \<in> set xs then Some (count_list xs k) else None)"

definition group_keys :: "row list \<Rightarrow> string list" where
  \<comment> \<open>the keys of \<open>groupby('counterparty_type')\<close>, which sorts them\<close>
  "group_keys d = sort (remdups (map (\<lambda>r. counterparty_type (raw r)) d))"

definition group_rows :: "row list \<Rightarrow> string \<Rightarrow> row list" where
  "group_rows d k = filter (\<lambda>r. counterparty_type (raw r) = k) d"

definition notional_sum :: "row list \<Rightarrow> real" where
  \<comment> \<open>\<open>data['notional_musd'].sum()\<close>\<close>
  "notional_sum d = sum_list (map (\<lambda>r. notional_musd (raw r)) d)"

definition score_above :: "real \<Rightarrow> row list \<Rightarrow> row list" where
  \<comment> \<open>\<open>data[data['composite_risk_score'] > c]\<close>\<close>
  "score_above c d = filter (\<lambda>r. nan_gt (composite_risk_score (composite r)) c) d"

section \<open>The counterparty analyzer\<close>

text \<open>
  The fields of the dataclass \<open>CounterpartyRiskProfile\<close>. Those whose name is also the
  name of a column carry the prefix \<open>p_\<close>.
\<close>

record CounterpartyRiskProfile =
  p_counterparty_type :: string
  total_exposure :: real
  trade_count :: nat
  average_risk_score :: "real option"
  max_risk_score :: "real option"
  p_risk_category :: string
  p_credit_risk_score :: "real option"
  p_market_risk_score :: "real option"
  p_liquidity_risk_score :: "real option"
  p_operational_risk_score :: "real option"
  p_term_risk_score :: "real option"
  concentration_ratio :: real
  high_risk_trades :: nat
  critical_risk_trades :: nat
  risk_flags :: "string list"

record concentration_metrics =
  top_5_concentration_pct :: real
  herfindahl_hirschman_index :: real
  largest_counterparty_pct :: real
  largest_counterparty :: "string option"

text \<open>The dictionary \<open>risk_aggregates\<close>, one field per key.\<close>

record aggregates =
  total_portfolio_exposure :: real
  total_trades :: nat
  unique_counterparties :: nat
  portfolio_average_risk_score :: "real option"
  portfolio_max_risk_score :: "real option"
  high_risk_exposure :: real
  critical_risk_exposure :: real
  high_risk_exposure_pct :: real
  critical_risk_exposure_pct :: real
  risk_distribution :: "string \<rightharpoonup> nat"
  counterparty_concentration :: concentration_metrics
  collateral_quality_distribution :: "string \<rightharpoonup> nat"
  currency_distribution :: "string \<rightharpoonup> nat"
  jurisdiction_distribution :: "string \<rightharpoonup> nat"

record analyzer =
  an_config :: config
  counterparty_profiles :: "string \<rightharpoonup> CounterpartyRiskProfile"
  high_risk_counterparties :: "string list"
  risk_aggregates :: "aggregates option"
    \<comment> \<open>\<open>None\<close> is the empty dictionary the constructor stores\<close>

definition new_analyzer :: "config \<Rightarrow> analyzer" where
  \<comment> \<open>\<open>CounterpartyRiskAnalyzer.__init__\<close>\<close>
  "new_analyzer cfg =
    \<lparr> an_config = cfg, counterparty_profiles = Map.empty,
      high_risk_counterparties = [], risk_aggregates = None \<rparr>"

definition flag_if :: "bool \<Rightarrow> string \<Rightarrow> string list" where
  \<comment> \<open>\<open>if c: flags.append(name)\<close>, as the list it adds\<close>
  "flag_if c name = (if c then [name] else [])"

definition generate_counterparty_risk_flags ::
  "config \<Rightarrow> row list \<Rightarrow> real \<Rightarrow> real \<Rightarrow> string list" where
  "generate_counterparty_risk_flags cfg d total_exp conc_ratio =
    flag_if (list_ex (\<lambda>r. high_risk_rating_flag (credit r)) d) ''HIGH_RISK_RATING''
    @ flag_if (nan_gt (nan_mean (map (\<lambda>r. credit_risk_score (credit r)) d)) 0.7)
        ''HIGH_CREDIT_RISK''
    @ flag_if (nan_gt (mean (map (\<lambda>r. haircut_risk_score (market r)) d)) 0.8)
        ''HIGH_HAIRCUT_RISK''
    @ flag_if (nan_gt (mean (map (\<lambda>r. specialness_risk_score (market r)) d)) 0.8)
        ''HIGH_SPECIALNESS_RISK''
    @ flag_if (nan_gt (mean (map (\<lambda>r. encumbrance_risk_score (liquidity r)) d)) 0.8)
        ''HIGH_ENCUMBRANCE_RISK''
    @ flag_if (nan_gt (mean (map (\<lambda>r. margin_call_risk_score (liquidity r)) d)) 0.8)
        ''HIGH_MARGIN_CALL_RISK''
    @ flag_if (list_ex (\<lambda>r. wrong_way_risk_flag (raw r) \<noteq> 0) d) ''WRONG_WAY_RISK''
    @ flag_if (list_ex (\<lambda>r. cross_ccy_flag (raw r) \<noteq> 0) d) ''CROSS_CURRENCY_RISK''
    @ flag_if (conc_ratio > single_counterparty_limit_pct cfg) ''HIGH_CONCENTRATION''
    @ flag_if (nan_gt (mean (map (\<lambda>r. term_risk_score (term_risk r)) d)) 0.8)
        ''HIGH_TERM_RISK''"

definition create_counterparty_profile ::
  "config \<Rightarrow> string \<Rightarrow> row list \<Rightarrow> CounterpartyRiskProfile" where
  "create_counterparty_profile cfg ctype d =
    (let total_exp = notional_sum d;
         total_portfolio = notional_sum d;
         conc = (if total_portfolio > 0 then total_exp / total_portfolio * 100 else 0)
     in \<lparr> p_counterparty_type = ctype,
          total_exposure = total_exp,
          trade_count = length d,
          average_risk_score = nan_mean (map (\<lambda>r. composite_risk_score (composite r)) d),
          max_risk_score = nan_max (map (\<lambda>r. composite_risk_score (composite r)) d),
          p_risk_category =
            (case mode_col (map (\<lambda>r. risk_category (composite r)) d) of
               [] \<Rightarrow> ''Medium'' | m # _ \<Rightarrow> m),
          p_credit_risk_score = nan_mean (map (\<lambda>r. credit_risk_score (credit r)) d),
          p_market_risk_score = mean (map (\<lambda>r. market_risk_score (market r)) d),
          p_liquidity_risk_score = mean (map (\<lambda>r. liquidity_risk_score (liquidity r)) d),
          p_operational_risk_score =
            mean (map (\<lambda>r. operational_risk_score (operational r)) d),
          p_term_risk_score = mean (map (\<lambda>r. term_risk_score (term_risk r)) d),
          concentration_ratio = conc,
          high_risk_trades = length (score_above 0.7 d),
          critical_risk_trades = length (score_above 0.9 d),
          risk_flags = generate_counterparty_risk_flags cfg d total_exp conc \<rparr>)"

definition risk_criteria :: "config \<Rightarrow> CounterpartyRiskProfile \<Rightarrow> bool list" where
  "risk_criteria cfg p =
    [ nan_gt (average_risk_score p) (high_risk cfg),
      nan_gt (max_risk_score p) (critical_risk cfg),
      concentration_ratio p > single_counterparty_limit_pct cfg,
      real (high_risk_trades p) > real (trade_count p) * 0.3,
      critical_risk_trades p > 0,
      nan_gt (p_credit_risk_score p) 0.7,
      nan_gt (p_market_risk_score p) 0.7,
      nan_gt (p_liquidity_risk_score p) 0.7 ]"

definition is_high_risk_counterparty :: "config \<Rightarrow> CounterpartyRiskProfile \<Rightarrow> bool" where
  \<comment> \<open>\<open>sum\<close> of a list of booleans counts the true ones\<close>
  "is_high_risk_counterparty cfg p = (sum_list (map of_bool (risk_criteria cfg p)) \<ge> (3::nat))"

definition calculate_concentration_metrics :: "row list \<Rightarrow> concentration_metrics" where
  \<comment> \<open>the sort is descending and keeps the group order among equal exposures; the
      branch for no group under a positive total is never taken\<close>
  "calculate_concentration_metrics d =
    (let exposures = sort_key (\<lambda>(k, v). - v)
                       (map (\<lambda>k. (k, notional_sum (group_rows d k))) (group_keys d));
         total = sum_list (map snd exposures)
     in \<lparr> top_5_concentration_pct =
            (if total > 0 then sum_list (map snd (take 5 exposures)) / total * 100 else 0),
          herfindahl_hirschman_index =
            (if total > 0 then sum_list (map (\<lambda>(k, v). (v / total) ^ 2) exposures) else 0),
          largest_counterparty_pct =
            (if total > 0
             then (case exposures of [] \<Rightarrow> 0 | (k, v) # _ \<Rightarrow> v / total * 100)
             else 0),
          largest_counterparty =
            (case exposures of [] \<Rightarrow> None | (k, v) # _ \<Rightarrow> Some k) \<rparr>)"

definition backfill :: "real \<Rightarrow> CounterpartyRiskProfile \<Rightarrow> CounterpartyRiskProfile" where
  \<comment> \<open>the body of the loop that updates the concentration ratios\<close>
  "backfill total_portfolio p =
    p\<lparr>concentration_ratio :=
        (if total_portfolio > 0 then total_exposure p / total_portfolio * 100 else 0)\<rparr>"

definition calculate_portfolio_aggregates :: "row list \<Rightarrow> analyzer \<Rightarrow> analyzer" where
  "calculate_portfolio_aggregates d an =
    (let total_portfolio = notional_sum d;
         agg = \<lparr> total_portfolio_exposure = total_portfolio,
                 total_trades = length d,
                 unique_counterparties =
                   length (remdups (map (\<lambda>r. counterparty_type (raw r)) d)),
                 portfolio_average_risk_score =
                   nan_mean (map (\<lambda>r. composite_risk_score (composite r)) d),
                 portfolio_max_risk_score =
                   nan_max (map (\<lambda>r. composite_risk_score (composite r)) d),
                 high_risk_exposure = notional_sum (score_above 0.7 d),
                 critical_risk_exposure = notional_sum (score_above 0.9 d),
                 high_risk_exposure_pct =
                   (if total_portfolio > 0
                    then notional_sum (score_above 0.7 d) / total_portfolio * 100 else 0),
                 critical_risk_exposure_pct =
                   (if total_portfolio > 0
                    then notional_sum (score_above 0.9 d) / total_portfolio * 100 else 0),
                 risk_distribution = value_counts (map (\<lambda>r. risk_category (composite r)) d),
                 counterparty_concentration = calculate_concentration_metrics d,
                 collateral_quality_distribution =
                   value_counts (map (\<lambda>r. collateral_hqla_level (raw r)) d),
                 currency_distribution = value_counts (map (\<lambda>r. currency (raw r)) d),
                 jurisdiction_distribution =
                   value_counts (map (\<lambda>r. jurisdiction (raw r)) d) \<rparr>
     in an\<lparr> risk_aggregates := Some agg,
            counterparty_profiles :=
              (\<lambda>k. map_option (backfill total_portfolio) (counterparty_profiles an k)) \<rparr>)"

definition analyze_group :: "row list \<Rightarrow> string \<Rightarrow> analyzer \<Rightarrow> analyzer" where
  \<comment> \<open>the body of the loop over the groups\<close>
  "analyze_group d ctype an =
    (let profile = create_counterparty_profile (an_config an) ctype (group_rows d ctype);
         an1 = an\<lparr>counterparty_profiles := (counterparty_profiles an)(ctype \<mapsto> profile)\<rparr>
     in if is_high_risk_counterparty (an_config an) profile
        then an1\<lparr>high_risk_counterparties := high_risk_counterparties an1 @ [ctype]\<rparr>
        else an1)"

definition analyze_counterparties :: "row list \<Rightarrow> analyzer \<Rightarrow> analyzer" where
  \<comment> \<open>the analyzer after the call; the flags and the summary that the call also
      returns are computed from this state and are not part of it\<close>
  "analyze_counterparties d an =
    calculate_portfolio_aggregates d (fold (analyze_group d) (group_keys d) an)"

text \<open>
  The first two steps of \<open>run_analysis\<close> in \<open>main.py\<close>: derive the fields of the loaded
  data, then analyse the processed frame with the application's analyzer.
\<close>

definition run_analysis :: "processor \<times> analyzer \<Rightarrow> error + (processor \<times> analyzer)" where
  "run_analysis app =
    (case derive_risk_fields (fst app) of
       Inl e \<Rightarrow> Inl e
     | Inr (pd, p) \<Rightarrow> Inr (p, analyze_counterparties pd (snd app)))"

section \<open>Example inputs\<close>

text \<open>
  A configuration with the rating weights of \<open>_get_default_config\<close> and a value for
  every other key, and a trade; the closed instances below are evaluated on them.
\<close>

definition example_config :: config where
  "example_config =
    \<lparr> rating_weights =
        [(''AAA'', 0.0), (''AA'', 0.2), (''A'', 0.5), (''BBB'', 1.0), (''BB'', 2.0),
         (''B'', 3.0), (''CCC'', 5.0), (''CC'', 10.0), (''C'', 15.0), (''D'', 100.0)],
      high_risk_rating_threshold = ''BB'',
      single_counterparty_limit_pct = 25,
      max_haircut_pct = 10,
      max_specialness_bp = 50,
      max_encumbrance_days = 30,
      max_mild_margin_call_musd = 10,
      max_severe_margin_call_musd = 10,
      max_term_days = 365,
      mild_stress = 1.2,
      severe_stress = 1.5,
      weight_credit_risk = 0.2,
      weight_market_risk = 0.2,
      weight_liquidity_risk = 0.2,
      weight_operational_risk = 0.2,
      weight_term_risk = 0.2,
      low_risk = 0.3,
      medium_risk = 0.5,
      high_risk = 0.7,
      critical_risk = 0.9 \<rparr>"

definition example_trade :: trade where
  "example_trade =
    \<lparr> counterparty_type = ''Bank'', counterparty_rating = ''A'', currency = ''USD'',
      jurisdiction = ''US'', term_type = ''Open'', collateral_hqla_level = ''L1'',
      notional_musd = 100, haircut_pct = 50, specialness_bp = 25,
      collateral_liquidity_score = 0.5, collateral_price_vol_20d_pct = 10,
      collateral_duration_years = 3, encumbrance_days = 15,
      margin_call_mild_musd = 16, margin_call_severe_musd = 16,
      wrong_way_risk_flag = 0, cross_ccy_flag = 0, ccp_cleared_flag = 1,
      days_to_maturity = 30 \<rparr>"

text \<open>
  The order of severity of the four category labels, Low before Medium before High before
  Critical, as a rank.
\<close>

definition severity :: "string \<Rightarrow> nat" where
  "severity c = (if c = ''Low'' then 0 else if c = ''Medium'' then 1 else if c = ''High'' then 2 else 3)"

text \<open>A trade with a low composite score, and a trade whose rating is not in the table.\<close>

definition low_trade :: trade where
  "low_trade = example_trade\<lparr>haircut_pct := 1, margin_call_mild_musd := 0, margin_call_severe_musd := 0, encumbrance_days := 0\<rparr>"

definition unrated_trade :: trade where
  "unrated_trade = example_trade\<lparr>counterparty_rating := ''NR''\<rparr>"

definition unrated_processor :: processor where
  "unrated_processor = \<lparr> proc_config = example_config, data = Some [unrated_trade], processed_data = None \<rparr>"

text \<open>Two profiles that differ in the concentration ratio only.\<close>

definition two_votes_profile :: CounterpartyRiskProfile where
  "two_votes_profile =
    \<lparr> p_counterparty_type = ''Bank'', total_exposure = 100, trade_count = 10,
      average_risk_score = Some 0.5, max_risk_score = Some 0.95, p_risk_category = ''Medium'',
      p_credit_risk_score = Some 0.1, p_market_risk_score = Some 0.2,
      p_liquidity_risk_score = Some 0.3, p_operational_risk_score = Some 0.1,
      p_term_risk_score = Some 0.1, concentration_ratio = 10, high_risk_trades = 1,
      critical_risk_trades = 1, risk_flags = [] \<rparr>"

definition three_votes_profile :: CounterpartyRiskProfile where
  "three_votes_profile = two_votes_profile\<lparr>concentration_ratio := 30\<rparr>"

text \<open>
  A frame of two counterparties, and a frame whose total notional is zero, each with the
  processor that holds its trades.
\<close>

definition two_party_trades :: "trade list" where
  "two_party_trades =
    [example_trade\<lparr>counterparty_type := ''Dealer'', notional_musd := 100\<rparr>,
     example_trade\<lparr>counterparty_type := ''Bank'', notional_musd := 900\<rparr>]"

definition two_party_frame :: "row list" where
  "two_party_frame = map (derive_row example_config) two_party_trades"

definition two_party_processor :: processor where
  "two_party_processor =
    \<lparr> proc_config = example_config, data = Some two_party_trades, processed_data = None \<rparr>"



text \<open>
  A frame of two counterparties in which the smaller one has a high market score and a
  high liquidity score.
\<close>

definition dealer_vote_trade :: trade where
  "dealer_vote_trade =
    example_trade\<lparr>counterparty_type := ''Dealer'', notional_musd := 100, encumbrance_days := 30\<rparr>"

definition bank_vote_trade :: trade where
  "bank_vote_trade = example_trade\<lparr>counterparty_type := ''Bank'', notional_musd := 900\<rparr>"

definition vote_frame :: "row list" where
  "vote_frame = map (derive_row example_config) [dealer_vote_trade, bank_vote_trade]"

section \<open>Derived fields of one trade\<close>

lemmas derive_defs =
  derive_row_def derive_credit_risk_fields_def derive_market_risk_fields_def
  derive_liquidity_risk_fields_def derive_operational_risk_fields_def
  derive_term_risk_fields_def derive_stress_testing_fields_def
  calculate_composite_risk_score_def clip_upper_def Let_def

text \<open>
  C8. For every trade the market score is
  \<open>0.4 (1 - collateral_quality_score) + 0.3 haircut_risk_score + 0.3 specialness_risk_score\<close>,
  the haircut score is \<open>haircut_pct / max_haircut_pct\<close> and the specialness score is
  \<open>specialness_bp / max_specialness_bp\<close>, with no clamp: there is a trade whose haircut
  exceeds the configured maximum and whose haircut score and market score exceed 1.
\<close>

theorem market_risk_score_unclamped:
  "market_risk_score (market (derive_row cfg t))
     = 0.4 * (1 - collateral_quality_score (market (derive_row cfg t)))
       + 0.3 * haircut_risk_score (market (derive_row cfg t))
       + 0.3 * specialness_risk_score (market (derive_row cfg t))
   \<and> haircut_risk_score (market (derive_row cfg t)) = haircut_pct t / max_haircut_pct cfg
   \<and> specialness_risk_score (market (derive_row cfg t))
       = specialness_bp t / max_specialness_bp cfg
   \<and> (\<exists>cfg' t'. 0 < max_haircut_pct cfg' \<and> max_haircut_pct cfg' < haircut_pct t'
         \<and> 1 < haircut_risk_score (market (derive_row cfg' t'))
         \<and> 1 < market_risk_score (market (derive_row cfg' t')))"
proof -
  have "0 < max_haircut_pct example_config
      \<and> max_haircut_pct example_config < haircut_pct example_trade
      \<and> 1 < haircut_risk_score (market (derive_row example_config example_trade))
      \<and> 1 < market_risk_score (market (derive_row example_config example_trade))"
    by (simp add: derive_defs example_config_def example_trade_def)
  then have "\<exists>cfg' t'. 0 < max_haircut_pct cfg' \<and> max_haircut_pct cfg' < haircut_pct t'
      \<and> 1 < haircut_risk_score (market (derive_row cfg' t'))
      \<and> 1 < market_risk_score (market (derive_row cfg' t'))"
    by blast
  then show ?thesis by (simp add: derive_defs)
qed

text \<open>
  C9. For every trade the margin-call score is
  \<open>min (0.5 mild / max_mild + 0.5 severe / max_severe) 1\<close>, the encumbrance score is
  \<open>min (encumbrance_days / max_encumbrance_days) 1\<close> and the liquidity score is
  \<open>0.6 encumbrance + 0.4 margin_call\<close>. The clamp is on the sum of the two halves: there
  is a trade whose halves are each below 1, whose sum is above 1, and whose score is 1.
\<close>

theorem margin_call_clamped_after_sum:
  "margin_call_risk_score (liquidity (derive_row cfg t))
     = min (0.5 * margin_call_mild_musd t / max_mild_margin_call_musd cfg
            + 0.5 * margin_call_severe_musd t / max_severe_margin_call_musd cfg) 1.0
   \<and> encumbrance_risk_score (liquidity (derive_row cfg t))
       = min (encumbrance_days t / max_encumbrance_days cfg) 1.0
   \<and> liquidity_risk_score (liquidity (derive_row cfg t))
       = 0.6 * encumbrance_risk_score (liquidity (derive_row cfg t))
         + 0.4 * margin_call_risk_score (liquidity (derive_row cfg t))
   \<and> (\<exists>cfg' t'. 0.5 * margin_call_mild_musd t' / max_mild_margin_call_musd cfg' < 1
         \<and> 0.5 * margin_call_severe_musd t' / max_severe_margin_call_musd cfg' < 1
         \<and> 1 < 0.5 * margin_call_mild_musd t' / max_mild_margin_call_musd cfg'
               + 0.5 * margin_call_severe_musd t' / max_severe_margin_call_musd cfg'
         \<and> margin_call_risk_score (liquidity (derive_row cfg' t')) = 1)"
proof -
  have "0.5 * margin_call_mild_musd example_trade
          / max_mild_margin_call_musd example_config < 1
      \<and> 0.5 * margin_call_severe_musd example_trade
          / max_severe_margin_call_musd example_config < 1
      \<and> 1 < 0.5 * margin_call_mild_musd example_trade
                / max_mild_margin_call_musd example_config
              + 0.5 * margin_call_severe_musd example_trade
                / max_severe_margin_call_musd example_config
      \<and> margin_call_risk_score (liquidity (derive_row example_config example_trade)) = 1"
    by (simp add: derive_defs example_config_def example_trade_def)
  then have "\<exists>cfg' t'.
        0.5 * margin_call_mild_musd t' / max_mild_margin_call_musd cfg' < 1
      \<and> 0.5 * margin_call_severe_musd t' / max_severe_margin_call_musd cfg' < 1
      \<and> 1 < 0.5 * margin_call_mild_musd t' / max_mild_margin_call_musd cfg'
              + 0.5 * margin_call_severe_musd t' / max_severe_margin_call_musd cfg'
      \<and> margin_call_risk_score (liquidity (derive_row cfg' t')) = 1"
    by blast
  then show ?thesis by (simp add: derive_defs)
qed

text \<open>
  C5. With thresholds \<open>low < medium < high\<close>, a trade's category is Low when its composite
  score is at most the low threshold, Medium when it is above that and at most the medium
  threshold, High when it is above that and at most the high threshold, and Critical when
  it is above the high threshold; and of two trades, the one with the lower composite
  score never has the more severe category.
\<close>

theorem risk_category_monotone:
  assumes "low_risk cfg < medium_risk cfg" and "medium_risk cfg < high_risk cfg"
    and "composite_risk_score (composite (derive_row cfg t)) = Some s"
    and "composite_risk_score (composite (derive_row cfg t')) = Some s'"
  shows "(risk_category (composite (derive_row cfg t)) = ''Low'' \<longleftrightarrow> s \<le> low_risk cfg)
    \<and> (risk_category (composite (derive_row cfg t)) = ''Medium''
         \<longleftrightarrow> low_risk cfg < s \<and> s \<le> medium_risk cfg)
    \<and> (risk_category (composite (derive_row cfg t)) = ''High''
         \<longleftrightarrow> medium_risk cfg < s \<and> s \<le> high_risk cfg)
    \<and> (risk_category (composite (derive_row cfg t)) = ''Critical'' \<longleftrightarrow> high_risk cfg < s)
    \<and> (s \<le> s' \<longrightarrow> severity (risk_category (composite (derive_row cfg t)))
                    \<le> severity (risk_category (composite (derive_row cfg t'))))"
proof -
  have a: "risk_category (composite (derive_row cfg u))
              = assign_risk_category cfg (composite_risk_score (composite (derive_row cfg u)))" for u
    by (simp add: derive_row_def calculate_composite_risk_score_def Let_def)
  have c: "risk_category (composite (derive_row cfg t)) = assign_risk_category cfg (Some s)"
    using a [of t] assms(3) by simp
  have c': "risk_category (composite (derive_row cfg t')) = assign_risk_category cfg (Some s')"
    using a [of t'] assms(4) by simp
  show ?thesis unfolding c c'
    using assms(1,2) by (auto simp: assign_risk_category_def nan_le_def severity_def)
qed

theorem risk_category_monotone_witness:
  "low_risk example_config < medium_risk example_config
   \<and> medium_risk example_config < high_risk example_config
   \<and> composite_risk_score (composite (derive_row example_config low_trade)) = Some (46321 / 365000)
   \<and> composite_risk_score (composite (derive_row example_config example_trade)) = Some (204731 / 365000)
   \<and> risk_category (composite (derive_row example_config low_trade)) = ''Low''
   \<and> severity (risk_category (composite (derive_row example_config low_trade)))
       \<le> severity (risk_category (composite (derive_row example_config example_trade)))"
proof -
  have h1: "low_risk example_config < medium_risk example_config"
    and h2: "medium_risk example_config < high_risk example_config"
    by (simp_all add: example_config_def)
  have h3: "composite_risk_score (composite (derive_row example_config low_trade)) = Some (46321 / 365000)"
    by (simp add: derive_defs example_config_def example_trade_def low_trade_def)
  have h4: "composite_risk_score (composite (derive_row example_config example_trade)) = Some (204731 / 365000)"
    by (simp add: derive_defs example_config_def example_trade_def)
  have l: "(46321 / 365000 :: real) \<le> low_risk example_config" by (simp add: example_config_def)
  have le: "(46321 / 365000 :: real) \<le> 204731 / 365000" by simp
  note th = risk_category_monotone [OF h1 h2 h3 h4]
  from th l have low: "risk_category (composite (derive_row example_config low_trade)) = ''Low''"
    by blast
  from th le have mono: "severity (risk_category (composite (derive_row example_config low_trade)))
       \<le> severity (risk_category (composite (derive_row example_config example_trade)))"
    by blast
  show ?thesis using h1 h2 h3 h4 low mono by blast
qed

section \<open>Ratings\<close>

text \<open>
  C1, as the code has it. \<open>Series.map\<close> raises nothing for a rating that is not a key of
  the weight table. On a frame with such a trade the derivation returns the processed
  frame; the trade has a rating flag and the category Critical.
\<close>

theorem unmapped_rating_counterexample:
  "map_of (rating_weights example_config) (counterparty_rating unrated_trade) = None
   \<and> derive_risk_fields unrated_processor
       = Inr ([derive_row example_config unrated_trade],
              unrated_processor\<lparr>processed_data := Some [derive_row example_config unrated_trade]\<rparr>)
   \<and> high_risk_rating_flag (credit (derive_row example_config unrated_trade)) = True
   \<and> risk_category (composite (derive_row example_config unrated_trade)) = ''Critical''"
proof -
  have k: "map_of (rating_weights example_config) (counterparty_rating unrated_trade) = None"
    by (simp add: unrated_trade_def example_config_def example_trade_def)
  have r: "derive_risk_fields unrated_processor
       = Inr ([derive_row example_config unrated_trade],
              unrated_processor\<lparr>processed_data := Some [derive_row example_config unrated_trade]\<rparr>)"
    by (simp add: derive_risk_fields_def unrated_processor_def Let_def)
  have f: "high_risk_rating_flag (credit (derive_row example_config unrated_trade)) = True"
    by (simp add: derive_row_def derive_credit_risk_fields_def Let_def unrated_trade_def
          example_config_def example_trade_def)
  have c: "risk_category (composite (derive_row example_config unrated_trade)) = ''Critical''"
    using k
    by (simp add: derive_row_def derive_credit_risk_fields_def calculate_composite_risk_score_def
          Let_def assign_risk_category_def nan_le_def)
  show ?thesis using k r f c by blast
qed

text \<open>
  C1, amended. For every trade whose rating is not a key of the rating-weight table the
  derivation does not fail: it returns the processed frame, in which the trade's
  \<open>rating_risk_weight\<close>, \<open>credit_risk_score\<close>, \<open>credit_adjusted_exposure\<close> and
  \<open>composite_risk_score\<close> are NaN.
\<close>

theorem unmapped_rating_gives_nan:
  assumes "data p = Some d" and "t \<in> set d"
    and "map_of (rating_weights (proc_config p)) (counterparty_rating t) = None"
  shows "derive_risk_fields p
           = Inr (map (derive_row (proc_config p)) d,
                  p\<lparr>processed_data := Some (map (derive_row (proc_config p)) d)\<rparr>)
    \<and> derive_row (proc_config p) t \<in> set (map (derive_row (proc_config p)) d)
    \<and> rating_risk_weight (credit (derive_row (proc_config p) t)) = None
    \<and> credit_risk_score (credit (derive_row (proc_config p) t)) = None
    \<and> credit_adjusted_exposure (credit (derive_row (proc_config p) t)) = None
    \<and> composite_risk_score (composite (derive_row (proc_config p) t)) = None"
proof -
  have r: "derive_risk_fields p
           = Inr (map (derive_row (proc_config p)) d,
                  p\<lparr>processed_data := Some (map (derive_row (proc_config p)) d)\<rparr>)"
    using assms(1) by (simp add: derive_risk_fields_def Let_def)
  have m: "derive_row (proc_config p) t \<in> set (map (derive_row (proc_config p)) d)"
    using assms(2) by simp
  have w: "rating_risk_weight (credit (derive_row (proc_config p) t)) = None"
    using assms(3) by (simp add: derive_row_def derive_credit_risk_fields_def Let_def)
  have c: "credit_risk_score (credit (derive_row (proc_config p) t)) = None"
    using assms(3) by (simp add: derive_row_def derive_credit_risk_fields_def Let_def)
  have e: "credit_adjusted_exposure (credit (derive_row (proc_config p) t)) = None"
    using assms(3) by (simp add: derive_row_def derive_credit_risk_fields_def Let_def)
  have s: "composite_risk_score (composite (derive_row (proc_config p) t)) = None"
    using assms(3)
    by (simp add: derive_row_def derive_credit_risk_fields_def
          calculate_composite_risk_score_def Let_def)
  show ?thesis using r m w c e s by blast
qed

theorem unmapped_rating_gives_nan_witness:
  "data unrated_processor = Some [unrated_trade] \<and> unrated_trade \<in> set [unrated_trade]
   \<and> map_of (rating_weights (proc_config unrated_processor)) (counterparty_rating unrated_trade) = None
   \<and> credit_risk_score (credit (derive_row (proc_config unrated_processor) unrated_trade)) = None"
proof -
  have h1: "data unrated_processor = Some [unrated_trade]" by (simp add: unrated_processor_def)
  have h2: "unrated_trade \<in> set [unrated_trade]" by simp
  have h3: "map_of (rating_weights (proc_config unrated_processor)) (counterparty_rating unrated_trade) = None"
    by (simp add: unrated_processor_def unrated_trade_def example_config_def example_trade_def)
  show ?thesis using unmapped_rating_gives_nan [OF h1 h2 h3] h1 h2 h3 by simp
qed

text \<open>
  C2, evaluated on the code. The flag compares the rating string with the threshold
  string. Under the threshold BB, the rating B, whose weight in the table is above that
  of BB, is not flagged, and the rating BBB, whose weight is below that of BB, is flagged.
\<close>

theorem rating_flag_is_lexicographic:
  "map_of (rating_weights example_config) ''BBB'' = Some 1
   \<and> map_of (rating_weights example_config) ''BB'' = Some 2
   \<and> map_of (rating_weights example_config) ''B'' = Some 3
   \<and> high_risk_rating_threshold example_config = ''BB''
   \<and> high_risk_rating_flag (credit (derive_row example_config (example_trade\<lparr>counterparty_rating := ''B''\<rparr>))) = False
   \<and> high_risk_rating_flag (credit (derive_row example_config (example_trade\<lparr>counterparty_rating := ''BBB''\<rparr>))) = True"
  by (simp add: derive_defs example_config_def example_trade_def)

section \<open>The high-risk vote\<close>

text \<open>
  The vote as a function of the profile it is passed: it holds exactly when at least 3 of
  the 8 criteria hold of that profile; with exactly 2 it does not, with exactly 3 it does.
\<close>

theorem high_risk_needs_three_of_eight:
  "(let n = (of_bool (nan_gt (average_risk_score p) (high_risk cfg))
            + of_bool (nan_gt (max_risk_score p) (critical_risk cfg))
            + of_bool (concentration_ratio p > single_counterparty_limit_pct cfg)
            + of_bool (real (high_risk_trades p) > 0.3 * real (trade_count p))
            + of_bool (critical_risk_trades p > 0)
            + of_bool (nan_gt (p_credit_risk_score p) 0.7)
            + of_bool (nan_gt (p_market_risk_score p) 0.7)
            + of_bool (nan_gt (p_liquidity_risk_score p) 0.7) :: nat)
    in (is_high_risk_counterparty cfg p \<longleftrightarrow> 3 \<le> n)
       \<and> (n = 2 \<longrightarrow> \<not> is_high_risk_counterparty cfg p)
       \<and> (n = 3 \<longrightarrow> is_high_risk_counterparty cfg p))"
  by (simp add: is_high_risk_counterparty_def risk_criteria_def Let_def mult.commute)

lemma two_votes: "(of_bool (nan_gt (average_risk_score two_votes_profile) (high_risk example_config))
            + of_bool (nan_gt (max_risk_score two_votes_profile) (critical_risk example_config))
            + of_bool (concentration_ratio two_votes_profile > single_counterparty_limit_pct example_config)
            + of_bool (real (high_risk_trades two_votes_profile) > 0.3 * real (trade_count two_votes_profile))
            + of_bool (critical_risk_trades two_votes_profile > 0)
            + of_bool (nan_gt (p_credit_risk_score two_votes_profile) 0.7)
            + of_bool (nan_gt (p_market_risk_score two_votes_profile) 0.7)
            + of_bool (nan_gt (p_liquidity_risk_score two_votes_profile) 0.7) :: nat) = 2"
  by (simp add: two_votes_profile_def example_config_def nan_gt_def)

lemma three_votes: "(of_bool (nan_gt (average_risk_score three_votes_profile) (high_risk example_config))
            + of_bool (nan_gt (max_risk_score three_votes_profile) (critical_risk example_config))
            + of_bool (concentration_ratio three_votes_profile > single_counterparty_limit_pct example_config)
            + of_bool (real (high_risk_trades three_votes_profile) > 0.3 * real (trade_count three_votes_profile))
            + of_bool (critical_risk_trades three_votes_profile > 0)
            + of_bool (nan_gt (p_credit_risk_score three_votes_profile) 0.7)
            + of_bool (nan_gt (p_market_risk_score three_votes_profile) 0.7)
            + of_bool (nan_gt (p_liquidity_risk_score three_votes_profile) 0.7) :: nat) = 3"
  by (simp add: three_votes_profile_def two_votes_profile_def example_config_def nan_gt_def)

theorem high_risk_needs_three_of_eight_witness:
  "\<not> is_high_risk_counterparty example_config two_votes_profile
   \<and> is_high_risk_counterparty example_config three_votes_profile"
  using high_risk_needs_three_of_eight [of two_votes_profile example_config]
        high_risk_needs_three_of_eight [of three_votes_profile example_config]
  unfolding Let_def two_votes three_votes by simp

section \<open>The analysis\<close>

text \<open>
  What the loop over the groups and the back-fill leave in the analyzer, and the sums
  that the concentration metrics take over the groups.
\<close>

lemma an_config_analyze_group: "an_config (analyze_group d k an) = an_config an"
  by (simp add: analyze_group_def Let_def)

lemma profiles_analyze_group:
  "counterparty_profiles (analyze_group d k an) k'
     = (if k' = k then Some (create_counterparty_profile (an_config an) k (group_rows d k))
        else counterparty_profiles an k')"
  by (simp add: analyze_group_def Let_def)

lemma an_config_fold: "an_config (fold (analyze_group d) ks an) = an_config an"
  by (induction ks arbitrary: an) (simp_all add: an_config_analyze_group)

lemma profiles_fold:
  "counterparty_profiles (fold (analyze_group d) ks an) k
     = (if k \<in> set ks then Some (create_counterparty_profile (an_config an) k (group_rows d k))
        else counterparty_profiles an k)"
  by (induction ks arbitrary: an)
     (simp_all add: profiles_analyze_group an_config_analyze_group)

lemma profiles_analyze:
  "counterparty_profiles (analyze_counterparties d an) k
     = map_option (backfill (notional_sum d))
         (if k \<in> set (group_keys d)
          then Some (create_counterparty_profile (an_config an) k (group_rows d k))
          else counterparty_profiles an k)"
  by (simp add: analyze_counterparties_def calculate_portfolio_aggregates_def Let_def profiles_fold)

lemma an_config_analyze: "an_config (analyze_counterparties d an) = an_config an"
  by (simp add: analyze_counterparties_def calculate_portfolio_aggregates_def Let_def an_config_fold)

lemma aggregates_analyze:
  "risk_aggregates (analyze_counterparties d an)
     = risk_aggregates (calculate_portfolio_aggregates d an')"
  by (simp add: analyze_counterparties_def calculate_portfolio_aggregates_def Let_def)

lemma backfill_idem: "backfill c (backfill c p) = backfill c p"
  by (simp add: backfill_def)

lemma length_filter_mono:
  "(\<And>x. P x \<Longrightarrow> Q x) \<Longrightarrow> length (filter P xs) \<le> length (filter Q xs)"
  by (induction xs) auto

lemma nan_gt_mono: "c \<le> c' \<Longrightarrow> nan_gt x c' \<Longrightarrow> nan_gt x c"
  by (cases x) (simp_all add: nan_gt_def)

lemma counts_created:
  "critical_risk_trades (create_counterparty_profile cfg k d)
      \<le> high_risk_trades (create_counterparty_profile cfg k d)
   \<and> high_risk_trades (create_counterparty_profile cfg k d)
      \<le> trade_count (create_counterparty_profile cfg k d)"
proof -
  have "length (score_above 0.9 d) \<le> length (score_above 0.7 d)"
    unfolding score_above_def
    by (rule length_filter_mono) (erule nan_gt_mono [rotated], simp)
  moreover have "length (score_above 0.7 d) \<le> length d"
    by (simp add: score_above_def)
  ultimately show ?thesis
    by (simp add: create_counterparty_profile_def Let_def)
qed

lemma counts_backfill:
  "critical_risk_trades (backfill c p) = critical_risk_trades p"
  "high_risk_trades (backfill c p) = high_risk_trades p"
  "trade_count (backfill c p) = trade_count p"
  by (simp_all add: backfill_def)








lemma raw_derive_row: "raw (derive_row cfg t) = t"
  by (simp add: derive_row_def Let_def)

lemma notional_sum_derive:
  "notional_sum (map (derive_row cfg) ts) = sum_list (map notional_musd ts)"
  by (simp add: notional_sum_def comp_def raw_derive_row)

lemma high_concentration_flag:
  "''HIGH_CONCENTRATION'' \<in> set (generate_counterparty_risk_flags cfg d te cr)
     \<longleftrightarrow> cr > single_counterparty_limit_pct cfg"
  by (simp add: generate_counterparty_risk_flags_def flag_if_def)

lemma created_flags:
  "''HIGH_CONCENTRATION'' \<in> set (risk_flags (create_counterparty_profile cfg k d))
     \<longleftrightarrow> (if notional_sum d > 0 then 100 else 0) > single_counterparty_limit_pct cfg"
  by (simp add: create_counterparty_profile_def Let_def high_concentration_flag)

lemma created_exposure:
  "total_exposure (create_counterparty_profile cfg k d) = notional_sum d"
  by (simp add: create_counterparty_profile_def Let_def)

lemma backfill_fields:
  "risk_flags (backfill c p) = risk_flags p"
  "total_exposure (backfill c p) = total_exposure p"
  "concentration_ratio (backfill c p) = (if c > 0 then total_exposure p / c * 100 else 0)"
  by (simp_all add: backfill_def)

lemma two_party_keys: "set (group_keys two_party_frame) = {''Bank'', ''Dealer''}"
  by (auto simp: group_keys_def two_party_frame_def two_party_trades_def raw_derive_row)

lemma two_party_total: "notional_sum two_party_frame = 1000"
  unfolding two_party_frame_def notional_sum_derive by (simp add: two_party_trades_def)

lemma two_party_dealer: "notional_sum (group_rows two_party_frame ''Dealer'') = 100"
  by (simp add: two_party_frame_def two_party_trades_def group_rows_def raw_derive_row
        notional_sum_def example_trade_def)

text \<open>
  C10. For every profile the analysis produces, the count of critical-risk trades is at
  most the count of high-risk trades, which is at most the trade count; the counts are
  natural numbers.
\<close>

theorem risk_trade_counts_ordered:
  assumes "counterparty_profiles (analyze_counterparties d (new_analyzer cfg)) k = Some p"
  shows "0 \<le> critical_risk_trades p \<and> critical_risk_trades p \<le> high_risk_trades p
         \<and> high_risk_trades p \<le> trade_count p"
proof -
  have "counterparty_profiles (new_analyzer cfg) k = None"
    by (simp add: new_analyzer_def)
  with assms obtain q where q: "q = create_counterparty_profile cfg k (group_rows d k)"
      and p: "p = backfill (notional_sum d) q"
    by (auto simp: profiles_analyze new_analyzer_def split: if_splits)
  show ?thesis unfolding p counts_backfill q using counts_created by simp
qed

theorem risk_trade_counts_ordered_witness:
  "\<exists>p. counterparty_profiles (analyze_counterparties two_party_frame (new_analyzer example_config))
          ''Dealer'' = Some p
       \<and> critical_risk_trades p \<le> high_risk_trades p \<and> high_risk_trades p \<le> trade_count p"
proof -
  obtain p where p: "counterparty_profiles
      (analyze_counterparties two_party_frame (new_analyzer example_config)) ''Dealer'' = Some p"
    by (simp add: profiles_analyze two_party_keys)
  from risk_trade_counts_ordered [OF p] p show ?thesis by blast
qed

text \<open>
  C3, evaluated on the code. Of two counterparties with notional 100 and 900 under a
  limit of 25, the first has the corrected concentration ratio 10, which does not exceed
  the limit, and its flags contain HIGH_CONCENTRATION all the same: the flags are
  generated from the ratio against the group's own total and are not generated again.
\<close>

theorem high_concentration_flag_from_placeholder:
  "map_option p_counterparty_type
     (counterparty_profiles (analyze_counterparties two_party_frame (new_analyzer example_config))
        ''Dealer'') = Some ''Dealer''
   \<and> concentration_ratio
       (the (counterparty_profiles
               (analyze_counterparties two_party_frame (new_analyzer example_config))
               ''Dealer'')) = 10
   \<and> single_counterparty_limit_pct example_config = 25
   \<and> ''HIGH_CONCENTRATION''
       \<in> set (risk_flags
                (the (counterparty_profiles
                        (analyze_counterparties two_party_frame (new_analyzer example_config))
                        ''Dealer'')))"
proof -
  have l: "single_counterparty_limit_pct example_config = 25"
    by (simp add: example_config_def)
  have n: "p_counterparty_type (backfill c (create_counterparty_profile cfg k d)) = k" for c cfg k d
    by (simp add: backfill_def create_counterparty_profile_def Let_def)
  show ?thesis
    by (simp add: profiles_analyze two_party_keys backfill_fields created_exposure created_flags
          two_party_total two_party_dealer l new_analyzer_def n)
qed



text \<open>
  C7. Running the pipeline again on the same data and configuration, on the application
  as the first run left it, returns the same processed frame, the same counterparty
  profiles and the same portfolio aggregates; and a run from a processor that holds the
  same data and configuration gives the same analyzer, whatever frame it processed
  before.
\<close>

theorem rerun_is_identical:
  assumes "run_analysis (p, an) = Inr (p1, an1)"
  shows "(\<exists>p2 an2. run_analysis (p1, an1) = Inr (p2, an2)
            \<and> counterparty_profiles an2 = counterparty_profiles an1
            \<and> risk_aggregates an2 = risk_aggregates an1
            \<and> processed_data p2 = processed_data p1)
       \<and> (\<forall>p'. data p' = data p \<and> proc_config p' = proc_config p
              \<longrightarrow> (\<exists>p1'. run_analysis (p', an) = Inr (p1', an1)
                         \<and> processed_data p1' = processed_data p1))"
proof -
  from assms obtain ts where ts: "data p = Some ts"
    by (auto simp: run_analysis_def derive_risk_fields_def split: option.splits)
  define pd where "pd = map (derive_row (proc_config p)) ts"
  have r: "run_analysis (q, a) = Inr (q\<lparr>processed_data := Some pd\<rparr>, analyze_counterparties pd a)"
    if "data q = Some ts" "proc_config q = proc_config p" for q a
    using that by (simp add: run_analysis_def derive_risk_fields_def Let_def pd_def)
  from assms r [OF ts refl, of an]
  have p1: "p1 = p\<lparr>processed_data := Some pd\<rparr>" and an1: "an1 = analyze_counterparties pd an"
    by simp_all
  have r1: "run_analysis (p1, an1)
      = Inr (p1\<lparr>processed_data := Some pd\<rparr>, analyze_counterparties pd an1)"
    by (rule r) (simp_all add: p1 ts)
  have prof: "counterparty_profiles (analyze_counterparties pd an1) = counterparty_profiles an1"
  proof
    fix k
    show "counterparty_profiles (analyze_counterparties pd an1) k = counterparty_profiles an1 k"
      unfolding an1
      by (simp add: profiles_analyze an_config_analyze option.map_comp comp_def backfill_idem)
  qed
  have agg: "risk_aggregates (analyze_counterparties pd an1) = risk_aggregates an1"
    unfolding an1 by (rule aggregates_analyze [where an' = an, THEN trans])
      (simp add: analyze_counterparties_def calculate_portfolio_aggregates_def Let_def)
  have a: "\<exists>p2 an2. run_analysis (p1, an1) = Inr (p2, an2)
            \<and> counterparty_profiles an2 = counterparty_profiles an1
            \<and> risk_aggregates an2 = risk_aggregates an1
            \<and> processed_data p2 = processed_data p1"
    using r1 prof agg by (simp add: p1)
  have b: "\<exists>p1'. run_analysis (p', an) = Inr (p1', an1) \<and> processed_data p1' = processed_data p1"
    if "data p' = data p" "proc_config p' = proc_config p" for p'
    using r [of p' an] that ts by (simp add: an1 p1)
  show ?thesis using a b by blast
qed

theorem rerun_is_identical_witness:
  "\<exists>p1 an1. run_analysis (two_party_processor, new_analyzer example_config) = Inr (p1, an1)
     \<and> (\<exists>p2 an2. run_analysis (p1, an1) = Inr (p2, an2)
            \<and> counterparty_profiles an2 = counterparty_profiles an1
            \<and> risk_aggregates an2 = risk_aggregates an1)"
proof -
  obtain p1 an1 where
    h: "run_analysis (two_party_processor, new_analyzer example_config) = Inr (p1, an1)"
    by (simp add: run_analysis_def derive_risk_fields_def two_party_processor_def Let_def)
  from rerun_is_identical [OF h] h show ?thesis by blast
qed

section \<open>The vote inside the analysis\<close>

text \<open>
  The loop over the groups votes on each profile as it is created, before the back-fill:
  the list of high-risk counterparties holds the groups whose created profile, with the
  concentration ratio against the group's own total, gets the vote.
\<close>

lemma high_risk_list_analyze_group:
  "high_risk_counterparties (analyze_group d k an)
     = high_risk_counterparties an
       @ (if is_high_risk_counterparty (an_config an)
               (create_counterparty_profile (an_config an) k (group_rows d k))
          then [k] else [])"
  by (simp add: analyze_group_def Let_def)

lemma high_risk_list_fold:
  "high_risk_counterparties (fold (analyze_group d) ks an)
     = high_risk_counterparties an
       @ filter (\<lambda>k. is_high_risk_counterparty (an_config an)
                        (create_counterparty_profile (an_config an) k (group_rows d k))) ks"
  by (induction ks arbitrary: an)
     (simp_all add: high_risk_list_analyze_group an_config_analyze_group)

lemma high_risk_list_analyze:
  "high_risk_counterparties (analyze_counterparties d an)
     = high_risk_counterparties an
       @ filter (\<lambda>k. is_high_risk_counterparty (an_config an)
                        (create_counterparty_profile (an_config an) k (group_rows d k)))
           (group_keys d)"
  by (simp add: analyze_counterparties_def calculate_portfolio_aggregates_def Let_def
        high_risk_list_fold)

lemma vote_keys: "group_keys vote_frame = [''Bank'', ''Dealer'']"
  by (simp add: group_keys_def vote_frame_def raw_derive_row dealer_vote_trade_def
        bank_vote_trade_def)

lemma vote_total: "notional_sum vote_frame = 1000"
  unfolding vote_frame_def notional_sum_derive
  by (simp add: dealer_vote_trade_def bank_vote_trade_def)

lemma vote_dealer_rows:
  "group_rows vote_frame ''Dealer'' = [derive_row example_config dealer_vote_trade]"
  by (simp add: group_rows_def vote_frame_def raw_derive_row dealer_vote_trade_def
        bank_vote_trade_def)

lemma vote_bank_rows:
  "group_rows vote_frame ''Bank'' = [derive_row example_config bank_vote_trade]"
  by (simp add: group_rows_def vote_frame_def raw_derive_row dealer_vote_trade_def
        bank_vote_trade_def)

lemmas reduce_defs = mean_def nan_mean_def nan_max_def dropna_def score_above_def nan_gt_def
  notional_sum_def

lemma dealer_criteria_created:
  "risk_criteria example_config
     (create_counterparty_profile example_config ''Dealer''
        [derive_row example_config dealer_vote_trade])
   = [False, False, True, False, False, False, True, True]"
  by (simp add: risk_criteria_def create_counterparty_profile_def Let_def reduce_defs derive_defs
        dealer_vote_trade_def example_trade_def example_config_def assign_risk_category_def
        nan_le_def)

lemma dealer_criteria_returned:
  "risk_criteria example_config
     (backfill 1000 (create_counterparty_profile example_config ''Dealer''
        [derive_row example_config dealer_vote_trade]))
   = [False, False, False, False, False, False, True, True]"
  by (simp add: risk_criteria_def backfill_def create_counterparty_profile_def Let_def reduce_defs
        derive_defs dealer_vote_trade_def example_trade_def example_config_def
        assign_risk_category_def nan_le_def)

lemma bank_criteria_created:
  "risk_criteria example_config
     (create_counterparty_profile example_config ''Bank''
        [derive_row example_config bank_vote_trade])
   = [False, False, True, False, False, False, True, False]"
  by (simp add: risk_criteria_def create_counterparty_profile_def Let_def reduce_defs derive_defs
        bank_vote_trade_def example_trade_def example_config_def assign_risk_category_def
        nan_le_def)

text \<open>
  C4, evaluated on the code. Of two counterparties with notional 100 and 900 under a
  limit of 25, the analysis lists the first as high-risk, and the profile it returns for
  it has the concentration ratio 10 and meets exactly 2 of the 8 criteria, the mean
  market score and the mean liquidity score: the vote ran on the ratio against the
  group's own total, which is 100 and exceeds the limit.
\<close>

theorem vote_reads_placeholder_ratio:
  "high_risk_counterparties (analyze_counterparties vote_frame (new_analyzer example_config))
     = [''Dealer'']
   \<and> map_option p_counterparty_type
       (counterparty_profiles (analyze_counterparties vote_frame (new_analyzer example_config))
          ''Dealer'') = Some ''Dealer''
   \<and> concentration_ratio
       (the (counterparty_profiles
               (analyze_counterparties vote_frame (new_analyzer example_config)) ''Dealer'')) = 10
   \<and> risk_criteria example_config
       (the (counterparty_profiles
               (analyze_counterparties vote_frame (new_analyzer example_config)) ''Dealer''))
       = [False, False, False, False, False, False, True, True]
   \<and> is_high_risk_counterparty example_config
       (the (counterparty_profiles
               (analyze_counterparties vote_frame (new_analyzer example_config)) ''Dealer''))
       = False"
proof -
  have c: "an_config (new_analyzer example_config) = example_config"
    and e: "high_risk_counterparties (new_analyzer example_config) = []"
    and n: "counterparty_profiles (new_analyzer example_config) k = None" for k
    by (simp_all add: new_analyzer_def)
  have l: "high_risk_counterparties
             (analyze_counterparties vote_frame (new_analyzer example_config)) = [''Dealer'']"
    by (simp add: high_risk_list_analyze c e vote_keys vote_dealer_rows vote_bank_rows
          is_high_risk_counterparty_def dealer_criteria_created bank_criteria_created)
  have p: "counterparty_profiles
             (analyze_counterparties vote_frame (new_analyzer example_config)) ''Dealer''
           = Some (backfill 1000 (create_counterparty_profile example_config ''Dealer''
                     [derive_row example_config dealer_vote_trade]))"
    by (simp add: profiles_analyze c vote_keys vote_dealer_rows vote_total)
  have t: "p_counterparty_type (backfill 1000 (create_counterparty_profile example_config
             ''Dealer'' [derive_row example_config dealer_vote_trade])) = ''Dealer''"
    by (simp add: backfill_def create_counterparty_profile_def Let_def)
  have r: "concentration_ratio (backfill 1000 (create_counterparty_profile example_config
             ''Dealer'' [derive_row example_config dealer_vote_trade])) = 10"
    by (simp add: backfill_fields created_exposure notional_sum_def raw_derive_row
          dealer_vote_trade_def)
  have h: "is_high_risk_counterparty example_config
             (backfill 1000 (create_counterparty_profile example_config ''Dealer''
                [derive_row example_config dealer_vote_trade])) = False"
    by (simp add: is_high_risk_counterparty_def dealer_criteria_returned)
  show ?thesis
    unfolding p option.sel option.map using l t r h dealer_criteria_returned by simp
qed

end
